theory Spec2Isabelle
  imports Complex_Main
begin

section \<open>Numeric model\<close>

text \<open>
  The detection pipeline of \<^verbatim>\<open>modeling_frcnn.py\<close> computes on tensors of floating-point
  numbers. A floating-point value is a real number, an infinity or a NaN. Of IEEE
  arithmetic the model keeps the special values and the range of the format: a result
  whose magnitude reaches the overflow threshold of round-to-nearest becomes an
  infinity, a product, quotient, exponential or logarithm at or below half the smallest
  subnormal becomes zero, a division by zero gives an infinity or a NaN, a logarithm of
  zero gives minus infinity. HOL's own \<open>x / 0 = 0\<close> and \<open>ln 0 = 0\<close> would hide all of
  that. What is left out is the rounding of the mantissa of a result inside the range,
  so an equation proved here is the source's equation up to floating-point rounding;
  the one place where the rounding decides an integer, the number of positive samples,
  is modelled with the rounding. Signed zeros are not modelled: every zero is the
  positive zero.

  Tensors are of the type \<^verbatim>\<open>float32\<close>, the default of torch and the type the anchor
  generator asks for; Python's own floats are \<^verbatim>\<open>float64\<close>. The third arithmetic,
  \<open>Ideal\<close>, has no range: it is exact real arithmetic with the special values, and it
  serves to say that a floating-point computation met no overflow and no underflow.
\<close>

datatype error = AssertionError | RuntimeError | IndexError | ZeroDivisionError
  | ValueError | TypeError | OverflowError | AttributeError

datatype fl = Fin real | PInf | MInf | NaN

datatype dtype = Float32 | Float64 | Ideal

text \<open>
  The range of a format: \<open>ovf\<close> is the least magnitude that rounds to an infinity,
  \<open>tiny\<close> the greatest that rounds to zero. Sums and differences of floating-point
  numbers overflow but never underflow.
\<close>

definition range_sum :: "real \<Rightarrow> real \<Rightarrow> fl" where
  "range_sum ovf r = (if ovf \<le> r then PInf else if r \<le> - ovf then MInf else Fin r)"

definition range_round :: "real \<Rightarrow> real \<Rightarrow> real \<Rightarrow> fl" where
  "range_round ovf tiny r =
     (if ovf \<le> r then PInf else if r \<le> - ovf then MInf
      else if \<bar>r\<bar> \<le> tiny then Fin 0 else Fin r)"

fun rnd_sum :: "dtype \<Rightarrow> real \<Rightarrow> fl" where
  "rnd_sum Float32 r = range_sum (2 ^ 128 - 2 ^ 103) r"
| "rnd_sum Float64 r = range_sum (2 ^ 1024 - 2 ^ 970) r"
| "rnd_sum Ideal r = Fin r"

fun rnd :: "dtype \<Rightarrow> real \<Rightarrow> fl" where
  "rnd Float32 r = range_round (2 ^ 128 - 2 ^ 103) (1 / 2 ^ 150) r"
| "rnd Float64 r = range_round (2 ^ 1024 - 2 ^ 970) (1 / 2 ^ 1075) r"
| "rnd Ideal r = Fin r"

fun fl_neg :: "fl \<Rightarrow> fl" where
  "fl_neg (Fin a) = Fin (- a)"
| "fl_neg PInf = MInf"
| "fl_neg MInf = PInf"
| "fl_neg NaN = NaN"

fun fl_add :: "dtype \<Rightarrow> fl \<Rightarrow> fl \<Rightarrow> fl" where
  "fl_add dt (Fin a) (Fin b) = rnd_sum dt (a + b)"
| "fl_add dt (Fin a) PInf = PInf"
| "fl_add dt (Fin a) MInf = MInf"
| "fl_add dt PInf (Fin b) = PInf"
| "fl_add dt PInf PInf = PInf"
| "fl_add dt MInf (Fin b) = MInf"
| "fl_add dt MInf MInf = MInf"
| "fl_add dt PInf MInf = NaN"
| "fl_add dt MInf PInf = NaN"
| "fl_add dt NaN y = NaN"
| "fl_add dt x NaN = NaN"

definition fl_sub :: "dtype \<Rightarrow> fl \<Rightarrow> fl \<Rightarrow> fl" where
  "fl_sub dt x y = fl_add dt x (fl_neg y)"

text \<open>An infinity of the given sign (\<open>True\<close> for positive).\<close>

definition fl_inf :: "bool \<Rightarrow> fl" where
  "fl_inf pos = (if pos then PInf else MInf)"

fun fl_mul :: "dtype \<Rightarrow> fl \<Rightarrow> fl \<Rightarrow> fl" where
  "fl_mul dt (Fin a) (Fin b) = rnd dt (a * b)"
| "fl_mul dt (Fin a) PInf = (if a = 0 then NaN else fl_inf (0 < a))"
| "fl_mul dt (Fin a) MInf = (if a = 0 then NaN else fl_inf (a < 0))"
| "fl_mul dt PInf (Fin b) = (if b = 0 then NaN else fl_inf (0 < b))"
| "fl_mul dt MInf (Fin b) = (if b = 0 then NaN else fl_inf (b < 0))"
| "fl_mul dt PInf PInf = PInf"
| "fl_mul dt MInf MInf = PInf"
| "fl_mul dt PInf MInf = MInf"
| "fl_mul dt MInf PInf = MInf"
| "fl_mul dt NaN y = NaN"
| "fl_mul dt x NaN = NaN"

fun fl_div :: "dtype \<Rightarrow> fl \<Rightarrow> fl \<Rightarrow> fl" where
  "fl_div dt (Fin a) (Fin b) =
     (if b = 0 then (if a = 0 then NaN else fl_inf (0 < a)) else rnd dt (a / b))"
| "fl_div dt (Fin a) PInf = Fin 0"
| "fl_div dt (Fin a) MInf = Fin 0"
| "fl_div dt PInf (Fin b) = fl_inf (0 \<le> b)"
| "fl_div dt MInf (Fin b) = fl_inf (b < 0)"
| "fl_div dt PInf PInf = NaN"
| "fl_div dt PInf MInf = NaN"
| "fl_div dt MInf PInf = NaN"
| "fl_div dt MInf MInf = NaN"
| "fl_div dt NaN y = NaN"
| "fl_div dt x NaN = NaN"

text \<open>\<^verbatim>\<open>torch.log\<close>: minus infinity at zero, NaN below it.\<close>

fun fl_log :: "dtype \<Rightarrow> fl \<Rightarrow> fl" where
  "fl_log dt (Fin a) = (if 0 < a then rnd dt (ln a) else if a = 0 then MInf else NaN)"
| "fl_log dt PInf = PInf"
| "fl_log dt MInf = NaN"
| "fl_log dt NaN = NaN"




text \<open>The comparison \<open>x \<le> y\<close> of IEEE arithmetic: false as soon as one side is a NaN.\<close>

fun fl_le :: "fl \<Rightarrow> fl \<Rightarrow> bool" where
  "fl_le (Fin a) (Fin b) = (a \<le> b)"
| "fl_le NaN y = False"
| "fl_le x NaN = False"
| "fl_le MInf y = True"
| "fl_le x PInf = True"
| "fl_le PInf y = False"
| "fl_le x MInf = False"

text \<open>The strict comparison \<open>x < y\<close> of IEEE arithmetic.\<close>

fun fl_lt :: "fl \<Rightarrow> fl \<Rightarrow> bool" where
  "fl_lt (Fin a) (Fin b) = (a < b)"
| "fl_lt NaN y = False"
| "fl_lt x NaN = False"
| "fl_lt PInf y = False"
| "fl_lt x MInf = False"
| "fl_lt MInf y = True"
| "fl_lt x PInf = True"

section \<open>Boxes\<close>

text \<open>
  A box is a row \<open>(x1, y1, x2, y2)\<close> of a tensor of shape \<open>(N, 4)\<close>, with finite
  coordinates; a list of boxes is the tensor.
\<close>

type_synonym box = "real \<times> real \<times> real \<times> real"





text \<open>
  Broadcasting of two one-dimensional operands, as torch does for the element-wise
  operations: equal lengths pair up, a length of one is repeated, anything else raises.
\<close>

definition broadcast2 :: "'a list \<Rightarrow> 'b list \<Rightarrow> error + ('a \<times> 'b) list" where
  "broadcast2 xs ys =
     (if length xs = length ys then Inr (zip xs ys)
      else if length xs = 1 then Inr (map (\<lambda>y. (hd xs, y)) ys)
      else if length ys = 1 then Inr (map (\<lambda>x. (x, hd ys)) xs)
      else Inl RuntimeError)"

text \<open>Running a function over the rows, stopping at the first error.\<close>

fun map_rows :: "('a \<Rightarrow> error + 'b) \<Rightarrow> 'a list \<Rightarrow> error + 'b list" where
  "map_rows f [] = Inr []"
| "map_rows f (x # xs) =
     (case f x of
        Inl e \<Rightarrow> Inl e
      | Inr y \<Rightarrow> (case map_rows f xs of Inl e \<Rightarrow> Inl e | Inr ys \<Rightarrow> Inr (y # ys)))"

section \<open>Box2BoxTransform\<close>

record transform =
  weights :: "real \<times> real \<times> real \<times> real"
  scale_clamp :: real

text \<open>\<^verbatim>\<open>Box2BoxTransform.__init__\<close>: the clamp defaults to \<open>ln (1000 / 16)\<close>.\<close>

definition Box2BoxTransform :: "real \<times> real \<times> real \<times> real \<Rightarrow> real option \<Rightarrow> transform" where
  "Box2BoxTransform ws sc =
     \<lparr>weights = ws, scale_clamp = (case sc of Some c \<Rightarrow> c | None \<Rightarrow> ln (1000 / 16))\<rparr>"

text \<open>
  The four deltas of one (source, target) pair, as \<^verbatim>\<open>get_deltas\<close> computes them, in
  the arithmetic \<open>dt\<close>.
\<close>

fun delta_row :: "dtype \<Rightarrow> transform \<Rightarrow> box \<Rightarrow> box \<Rightarrow> fl list" where
  "delta_row dt T (sx1, sy1, sx2, sy2) (tx1, ty1, tx2, ty2) =
     (let src_widths = fl_sub dt (Fin sx2) (Fin sx1);
          src_heights = fl_sub dt (Fin sy2) (Fin sy1);
          src_ctr_x = fl_add dt (Fin sx1) (fl_mul dt (Fin 0.5) src_widths);
          src_ctr_y = fl_add dt (Fin sy1) (fl_mul dt (Fin 0.5) src_heights);
          target_widths = fl_sub dt (Fin tx2) (Fin tx1);
          target_heights = fl_sub dt (Fin ty2) (Fin ty1);
          target_ctr_x = fl_add dt (Fin tx1) (fl_mul dt (Fin 0.5) target_widths);
          target_ctr_y = fl_add dt (Fin ty1) (fl_mul dt (Fin 0.5) target_heights);
          (wx, wy, ww, wh) = weights T;
          dx = fl_div dt (fl_mul dt (Fin wx) (fl_sub dt target_ctr_x src_ctr_x)) src_widths;
          dy = fl_div dt (fl_mul dt (Fin wy) (fl_sub dt target_ctr_y src_ctr_y)) src_heights;
          dw = fl_mul dt (Fin ww) (fl_log dt (fl_div dt target_widths src_widths));
          dh = fl_mul dt (Fin wh) (fl_log dt (fl_div dt target_heights src_heights))
      in [dx, dy, dw, dh])"

text \<open>The source width of a box as the tensor holds it, for the assertion of \<^verbatim>\<open>get_deltas\<close>.\<close>

fun src_width :: "dtype \<Rightarrow> box \<Rightarrow> fl" where
  "src_width dt (sx1, sy1, sx2, sy2) = fl_sub dt (Fin sx2) (Fin sx1)"

text \<open>
  \<^verbatim>\<open>Box2BoxTransform.get_deltas\<close> in the arithmetic \<open>dt\<close>. The deltas are computed first
  (a shape mismatch raises there); the assertion on the source widths comes last, and
  it is the only check the method makes.
\<close>

definition get_deltas_in ::
  "dtype \<Rightarrow> transform \<Rightarrow> box list \<Rightarrow> box list \<Rightarrow> error + fl list list" where
  "get_deltas_in dt T src_boxes target_boxes =
     (case broadcast2 src_boxes target_boxes of
        Inl e \<Rightarrow> Inl e
      | Inr pairs \<Rightarrow>
          (let deltas = map (\<lambda>(s, t). delta_row dt T s t) pairs
           in if list_all (\<lambda>s. fl_lt (Fin 0) (src_width dt s)) src_boxes then Inr deltas
              else Inl AssertionError))"

text \<open>\<^verbatim>\<open>get_deltas\<close> on \<^verbatim>\<open>float32\<close> tensors.\<close>

definition get_deltas :: "transform \<Rightarrow> box list \<Rightarrow> box list \<Rightarrow> error + fl list list" where
  "get_deltas T src_boxes target_boxes = get_deltas_in Float32 T src_boxes target_boxes"







section \<open>Matcher\<close>

record matcher =
  thresholds :: "fl list"
  labels :: "int list"
  allow_low_quality_matches :: bool

text \<open>
  \<^verbatim>\<open>Matcher.__init__\<close>: the thresholds given by the caller get \<open>-\<infinity>\<close> in front and
  \<open>+\<infinity>\<close> behind; the four assertions are the source's, in its order, and reading
  \<^verbatim>\<open>thresholds[0]\<close> of an empty list raises.
\<close>

definition Matcher :: "real list \<Rightarrow> int list \<Rightarrow> bool \<Rightarrow> error + matcher" where
  "Matcher ths labs allow =
     (if ths = [] then Inl IndexError
      else if \<not> 0 < hd ths then Inl AssertionError
      else
        (let ts = MInf # map Fin ths @ [PInf]
         in if \<not> list_all (\<lambda>(low, high). fl_le low high) (zip (butlast ts) (tl ts))
              then Inl AssertionError
            else if \<not> list_all (\<lambda>l. l \<in> set [- 1, 0, 1]) labs then Inl AssertionError
            else if length labs \<noteq> length ts - 1 then Inl AssertionError
            else Inr \<lparr>thresholds = ts, labels = labs, allow_low_quality_matches = allow\<rparr>))"

text \<open>
  A two-dimensional tensor of reals, given by its rows. The number of columns is kept
  beside the rows, since a tensor of shape \<open>(0, N)\<close> still knows \<open>N\<close>; in a well-formed
  matrix every row has that many entries. The match quality matrix has \<open>M\<close>
  ground-truth rows and \<open>N\<close> prediction columns.
\<close>

record matrix =
  ncols :: nat
  rows :: "real list list"

definition wf_matrix :: "matrix \<Rightarrow> bool" where
  "wf_matrix q = list_all (\<lambda>r. length r = ncols q) (rows q)"

text \<open>
  The maximum of a non-empty list and the index of its first occurrence, which is the
  index \<^verbatim>\<open>torch.max\<close> returns along a dimension. (The empty list is never asked for:
  both callers have at least one row and one column.)
\<close>

fun max_list :: "real list \<Rightarrow> real" where
  "max_list [] = 0"
| "max_list (x # xs) = foldl max x xs"

definition argmax_first :: "real list \<Rightarrow> nat" where
  "argmax_first xs = length (takeWhile (\<lambda>v. v \<noteq> max_list xs) xs)"

definition column :: "matrix \<Rightarrow> nat \<Rightarrow> real list" where
  "column q j = map (\<lambda>r. r ! j) (rows q)"

text \<open>\<^verbatim>\<open>match_quality_matrix.max(dim=0)\<close>: for each prediction, the best quality and its row.\<close>

definition max_dim0 :: "matrix \<Rightarrow> (real \<times> nat) list" where
  "max_dim0 q = map (\<lambda>j. (max_list (column q j), argmax_first (column q j))) [0..<ncols q]"

text \<open>
  The loop over \<^verbatim>\<open>zip(self.labels, self.thresholds[:-1], self.thresholds[1:])\<close>, at one
  prediction: the label starts as 1 and each band that holds the matched value
  overwrites it.
\<close>

definition band_label :: "matcher \<Rightarrow> real \<Rightarrow> int" where
  "band_label m v =
     foldl (\<lambda>lab (l, low, high). if fl_le low (Fin v) \<and> fl_lt (Fin v) high then l else lab) 1
       (zip (labels m) (zip (butlast (thresholds m)) (tl (thresholds m))))"

text \<open>
  \<^verbatim>\<open>Matcher.set_low_quality_matches_\<close>: the row maxima, the mask of the entries equal to the
  maximum of their row, the column indices of the mask's true entries (as
  \<^verbatim>\<open>nonzero\<close> lists them, row by row), and the label 1 written at each of them. The mask
  has two dimensions here, so the source's branch for a mask of dimension zero is not
  taken.
\<close>

definition set_low_quality_matches :: "int list \<Rightarrow> matrix \<Rightarrow> int list" where
  "set_low_quality_matches match_labels q =
     (let highest_quality_foreach_gt = map max_list (rows q);
          of_quality_inds = map (\<lambda>(r, h). map (\<lambda>v. v = h) r)
                              (zip (rows q) highest_quality_foreach_gt);
          pred_inds_with_highest_quality =
            concat (map (\<lambda>mask. filter (\<lambda>j. mask ! j) [0..<length mask]) of_quality_inds)
      in foldl (\<lambda>ls j. ls[j := 1]) match_labels pred_inds_with_highest_quality)"

text \<open>
  \<^verbatim>\<open>Matcher.__call__\<close>, returning \<open>(matches, match_labels)\<close>. An empty matrix returns the
  defaults before the assertion on the sign of the entries is reached.
\<close>

definition matcher_call :: "matcher \<Rightarrow> matrix \<Rightarrow> error + nat list \<times> int list" where
  "matcher_call m q =
     (if length (rows q) * ncols q = 0 then
        (case labels m of
           [] \<Rightarrow> Inl IndexError
         | l0 # ls \<Rightarrow> Inr (replicate (ncols q) 0, replicate (ncols q) l0))
      else if \<not> list_all (list_all (\<lambda>v. 0 \<le> v)) (rows q) then Inl AssertionError
      else
        (let mv = max_dim0 q;
             matched_vals = map fst mv;
             matches = map snd mv;
             match_labels = map (band_label m) matched_vals
         in Inr (matches,
                 if allow_low_quality_matches m then set_low_quality_matches match_labels q
                 else match_labels)))"

section \<open>Intersection over union\<close>





section \<open>Sampling of labels\<close>

text \<open>\<^verbatim>\<open>torch.nonzero(mask).squeeze(1)\<close>: the indices at which the mask holds, ascending.\<close>

definition nonzero :: "('a \<Rightarrow> bool) \<Rightarrow> 'a list \<Rightarrow> nat list" where
  "nonzero P xs = filter (\<lambda>i. P (xs ! i)) [0..<length xs]"

text \<open>
  Python's floats are IEEE doubles, and here the rounding of the mantissa decides an
  integer, so it is modelled. \<open>rne\<close> rounds a real to the nearest integer, a tie to the
  even one. \<open>round_double\<close> rounds a real to the nearest double, a tie to the even
  mantissa: the spacing of the doubles around \<open>x\<close> is \<open>2\<close> to the power
  \<open>\<lfloor>log\<^sub>2 \<bar>x\<bar>\<rfloor> - 52\<close>, and \<open>2\<close> to the power \<open>-1074\<close> among the subnormal numbers.
\<close>

definition rne :: "real \<Rightarrow> int" where
  "rne x =
     (let f = \<lfloor>x\<rfloor>;
          d = x - of_int f
      in if d < 1 / 2 then f else if 1 / 2 < d then f + 1 else if even f then f else f + 1)"

definition round_double :: "real \<Rightarrow> real" where
  "round_double x =
     (if x = 0 then 0
      else
        (let e = max \<lfloor>log 2 \<bar>x\<bar>\<rfloor> (- 1022) - 52
         in of_int (rne (x / 2 powi e)) * 2 powi e))"

text \<open>
  The conversion of a Python integer to a float, which \<^verbatim>\<open>int * float\<close> applies to its
  left operand: the nearest double, and an \<^verbatim>\<open>OverflowError\<close> when the integer is too
  large to have one.
\<close>

definition py_float :: "int \<Rightarrow> error + real" where
  "py_float n =
     (if 2 ^ 1024 - 2 ^ 970 \<le> \<bar>real_of_int n\<bar> then Inl OverflowError
      else Inr (round_double (real_of_int n)))"

text \<open>The product of two Python floats: the nearest double, or an infinity.\<close>

definition py_mul :: "real \<Rightarrow> real \<Rightarrow> fl" where
  "py_mul a b =
     (if 2 ^ 1024 - 2 ^ 970 \<le> a * b then PInf
      else if a * b \<le> - (2 ^ 1024 - 2 ^ 970) then MInf
      else Fin (round_double (a * b)))"

text \<open>
  Python's \<^verbatim>\<open>int(x)\<close> of a float truncates towards zero; an infinity raises an
  \<^verbatim>\<open>OverflowError\<close> and a NaN a \<^verbatim>\<open>ValueError\<close>.
\<close>

fun py_int :: "fl \<Rightarrow> error + int" where
  "py_int (Fin x) = Inr (if 0 \<le> x then \<lfloor>x\<rfloor> else \<lceil>x\<rceil>)"
| "py_int PInf = Inl OverflowError"
| "py_int MInf = Inl OverflowError"
| "py_int NaN = Inl ValueError"

text \<open>The slice \<^verbatim>\<open>xs[:n]\<close>; a negative \<open>n\<close> counts from the end.\<close>

definition py_slice_to :: "int \<Rightarrow> 'a list \<Rightarrow> 'a list" where
  "py_slice_to n xs = (if 0 \<le> n then take (nat n) xs else take (length xs - nat (- n)) xs)"

text \<open>
  \<^verbatim>\<open>torch.randperm(n)\<close> draws a permutation of \<open>0, \<dots>, n - 1\<close>. The two draws of
  \<^verbatim>\<open>subsample_labels\<close> are parameters of the model, and \<open>is_randperm\<close> is what the
  library promises of each.
\<close>

definition is_randperm :: "nat list \<Rightarrow> nat \<Rightarrow> bool" where
  "is_randperm p n = (distinct p \<and> set p = {0..<n})"

text \<open>
  \<^verbatim>\<open>subsample_labels\<close>, returning \<open>(pos_idx, neg_idx)\<close>. The source's parameter
  \<^verbatim>\<open>labels\<close> is called \<open>label_vec\<close> here, \<open>labels\<close> being the field of the matcher.
  \<open>num_samples\<close> is a Python integer and \<open>positive_fraction\<close> a Python float, so
  \<^verbatim>\<open>num_samples * positive_fraction\<close> is the rounded product of two floats.
\<close>

definition subsample_labels ::
  "(nat \<Rightarrow> nat list) \<Rightarrow> (nat \<Rightarrow> nat list) \<Rightarrow> int list \<Rightarrow> int \<Rightarrow> real \<Rightarrow> int
     \<Rightarrow> error + nat list \<times> nat list" where
  "subsample_labels randperm1 randperm2 label_vec num_samples positive_fraction bg_label =
     (let positive = nonzero (\<lambda>l. l \<noteq> - 1 \<and> l \<noteq> bg_label) label_vec;
          negative = nonzero (\<lambda>l. l = bg_label) label_vec
      in case py_float num_samples of
           Inl e \<Rightarrow> Inl e
         | Inr ns \<Rightarrow>
             (case py_int (py_mul ns positive_fraction) of
                Inl e \<Rightarrow> Inl e
              | Inr num_pos \<Rightarrow>
                  (let num_pos = min (int (length positive)) num_pos;
                       num_neg = num_samples - num_pos;
                       num_neg = min (int (length negative)) num_neg;
                       perm1 = py_slice_to num_pos (randperm1 (length positive));
                       perm2 = py_slice_to num_neg (randperm2 (length negative));
                       pos_idx = map (\<lambda>k. positive ! k) perm1;
                       neg_idx = map (\<lambda>k. negative ! k) perm2
                   in Inr (pos_idx, neg_idx))))"

section \<open>Final detections of one image\<close>

text \<open>
  \<^verbatim>\<open>reshape(-1, 4)\<close> of the flattened values of a tensor; a number of values that four
  does not divide raises.
\<close>

fun group4 :: "real list \<Rightarrow> error + box list" where
  "group4 [] = Inr []"
| "group4 (a # b # c # d # rest) =
     (case group4 rest of Inl e \<Rightarrow> Inl e | Inr bs \<Rightarrow> Inr ((a, b, c, d) # bs))"
| "group4 vs = Inl RuntimeError"

text \<open>
  The argument \<^verbatim>\<open>boxes\<close> of \<^verbatim>\<open>fast_rcnn_inference_single_image\<close> is a tensor: the
  function reads its \<^verbatim>\<open>shape\<close> and calls its \<^verbatim>\<open>reshape\<close>, and what \<^verbatim>\<open>reshape\<close> returns is
  a \<^verbatim>\<open>torch.Tensor\<close> again. The two methods the function then uses are therefore those
  of \<^verbatim>\<open>torch.Tensor\<close>; the container of boxes that the comment of the source speaks of
  is never built.

  \<^verbatim>\<open>torch.Tensor.clip(min)\<close> is \<^verbatim>\<open>clamp\<close>: given a number, it returns a new tensor with
  every value raised to at least that number; given a tuple, which is what an image
  shape \<open>(height, width)\<close> is, it raises a \<^verbatim>\<open>TypeError\<close>.
\<close>

datatype clip_bound = NumberBound real | TupleBound "real \<times> real"

fun tensor_clip :: "box list \<Rightarrow> clip_bound \<Rightarrow> error + box list" where
  "tensor_clip t (NumberBound lo) =
     Inr (map (\<lambda>(x1, y1, x2, y2). (max x1 lo, max y1 lo, max x2 lo, max y2 lo)) t)"
| "tensor_clip t (TupleBound image_shape) = Inl TypeError"

text \<open>
  The attribute \<^verbatim>\<open>tensor\<close> read from a \<^verbatim>\<open>torch.Tensor\<close>: a tensor has no such attribute,
  and the access raises an \<^verbatim>\<open>AttributeError\<close>.
\<close>

definition tensor_attr_tensor :: "box list \<Rightarrow> error + box list" where
  "tensor_attr_tensor t = Inl AttributeError"

text \<open>
  \<^verbatim>\<open>view(-1, C, 4)\<close> of a tensor of shape \<open>(n, 4)\<close>: the boxes in groups of \<open>C\<close>; the
  view raises when \<open>C\<close> is zero or does not divide \<open>n\<close>.
\<close>

definition view_groups :: "box list \<Rightarrow> nat \<Rightarrow> error + box list list" where
  "view_groups t c =
     (if c = 0 \<or> length t mod c \<noteq> 0 then Inl RuntimeError
      else Inr (map (\<lambda>r. map (\<lambda>k. t ! (r * c + k)) [0..<c]) [0..<length t div c]))"

text \<open>\<^verbatim>\<open>scores[:, :-1]\<close>: every row without its last entry, the background score.\<close>

definition drop_last_column :: "matrix \<Rightarrow> real list list" where
  "drop_last_column scores = map butlast (rows scores)"

text \<open>
  \<^verbatim>\<open>filter_inds = (scores > score_thresh).nonzero()\<close> on the scores without the
  background column: the pairs (row, class) above the threshold, row by row.
\<close>

definition filter_inds_of :: "matrix \<Rightarrow> real \<Rightarrow> (nat \<times> nat) list" where
  "filter_inds_of scores score_thresh =
     (let s = drop_last_column scores
      in concat (map (\<lambda>r. map (\<lambda>k. (r, k))
                              (filter (\<lambda>k. score_thresh < s ! r ! k) [0..<ncols scores - 1]))
                   [0..<length s]))"

text \<open>
  The boxes of the pairs above the threshold: with one box per row (class-agnostic
  regression) the box of the row, \<^verbatim>\<open>boxes[filter_inds[:, 0], 0]\<close>; otherwise the box of
  the row and class, \<^verbatim>\<open>boxes[filter_mask]\<close>, which needs the mask and the boxes to agree
  in shape.
\<close>

definition select_boxes ::
  "box list list \<Rightarrow> nat \<Rightarrow> nat \<times> nat \<Rightarrow> (nat \<times> nat) list \<Rightarrow> error + box list" where
  "select_boxes grouped num_bbox_reg_classes mask_shape filter_inds =
     (if num_bbox_reg_classes = 1 then
        (if list_all (\<lambda>(r, k). r < length grouped) filter_inds
         then Inr (map (\<lambda>(r, k). grouped ! r ! 0) filter_inds)
         else Inl IndexError)
      else if mask_shape \<noteq> (length grouped, num_bbox_reg_classes) then Inl IndexError
      else Inr (map (\<lambda>(r, k). grouped ! r ! k) filter_inds))"

text \<open>
  \<^verbatim>\<open>batched_nms\<close>. The two suppression routines of torchvision, \<^verbatim>\<open>box_ops.batched_nms\<close>
  and \<^verbatim>\<open>nms\<close>, are parameters. Below 40000 boxes the first is called; from 40000 on,
  the second runs on the boxes of each group id, the kept boxes are marked in a mask,
  and the marked indices are returned by descending score (the order among equal scores
  is that of a stable sort here).
\<close>

definition batched_nms ::
  "(box list \<Rightarrow> real list \<Rightarrow> nat list \<Rightarrow> real \<Rightarrow> nat list)
     \<Rightarrow> (box list \<Rightarrow> real list \<Rightarrow> real \<Rightarrow> nat list)
     \<Rightarrow> box list \<Rightarrow> real list \<Rightarrow> nat list \<Rightarrow> real \<Rightarrow> error + nat list" where
  "batched_nms tv_batched_nms tv_nms boxes scores idxs iou_threshold =
     (if length boxes < 40000 then Inr (tv_batched_nms boxes scores idxs iou_threshold)
      else if length scores \<noteq> length boxes \<or> length idxs \<noteq> length boxes then Inl IndexError
      else
        (case fold (\<lambda>i acc.
                 case acc of
                   Inl e \<Rightarrow> Inl e
                 | Inr result_mask \<Rightarrow>
                     (let sel = nonzero (\<lambda>x. x = i) idxs;
                          keep = tv_nms (map (\<lambda>j. boxes ! j) sel) (map (\<lambda>j. scores ! j) sel)
                                   iou_threshold
                      in if list_all (\<lambda>k. k < length sel) keep
                         then Inr (fold (\<lambda>k m. m[sel ! k := True]) keep result_mask)
                         else Inl IndexError))
               (remdups (sort idxs)) (Inr (replicate (length scores) False)) of
           Inl e \<Rightarrow> Inl e
         | Inr result_mask \<Rightarrow>
             Inr (sort_key (\<lambda>j. - scores ! j) (nonzero (\<lambda>b. b) result_mask))))"

text \<open>
  \<^verbatim>\<open>fast_rcnn_inference_single_image\<close>, returning the image size, the boxes, scores and
  classes of the detections, and the row of the input each detection comes from. The
  statements are the source's, in its order: the scores without the background column,
  the number of boxes per row, the reshape, the call of \<^verbatim>\<open>clip\<close> with the image shape
  (its result is dropped), the read of \<^verbatim>\<open>tensor\<close> and the view, the filter, the
  suppression and the cut to \<open>topk_per_image\<close>.
\<close>

definition fast_rcnn_inference_single_image ::
  "(box list \<Rightarrow> real list \<Rightarrow> nat list \<Rightarrow> real \<Rightarrow> nat list)
     \<Rightarrow> (box list \<Rightarrow> real list \<Rightarrow> real \<Rightarrow> nat list)
     \<Rightarrow> matrix \<Rightarrow> matrix \<Rightarrow> real \<times> real \<Rightarrow> real \<Rightarrow> real \<Rightarrow> int
     \<Rightarrow> error + (real \<times> real) \<times> box list \<times> real list \<times> nat list \<times> nat list" where
  "fast_rcnn_inference_single_image tv_batched_nms tv_nms boxes scores image_shape score_thresh
       nms_thresh topk_per_image =
     (let s = drop_last_column scores;
          num_bbox_reg_classes = ncols boxes div 4
      in case group4 (concat (rows boxes)) of
           Inl e \<Rightarrow> Inl e
         | Inr reshaped \<Rightarrow>
       (case tensor_clip reshaped (TupleBound image_shape) of
           Inl e \<Rightarrow> Inl e
         | Inr dropped \<Rightarrow>
       (case tensor_attr_tensor reshaped of
           Inl e \<Rightarrow> Inl e
         | Inr t \<Rightarrow>
       (case view_groups t num_bbox_reg_classes of
           Inl e \<Rightarrow> Inl e
         | Inr grouped \<Rightarrow>
             (let filter_inds = filter_inds_of scores score_thresh
              in case select_boxes grouped num_bbox_reg_classes (length s, ncols scores - 1)
                        filter_inds of
                   Inl e \<Rightarrow> Inl e
                 | Inr bxs \<Rightarrow>
                     (let scs = map (\<lambda>(r, k). s ! r ! k) filter_inds
                      in case batched_nms tv_batched_nms tv_nms bxs scs (map snd filter_inds)
                                nms_thresh of
                           Inl e \<Rightarrow> Inl e
                         | Inr keep0 \<Rightarrow>
                             (let keep = (if 0 \<le> topk_per_image
                                          then py_slice_to topk_per_image keep0 else keep0)
                              in if \<not> list_all (\<lambda>i. i < length filter_inds) keep
                                 then Inl IndexError
                                 else Inr (image_shape,
                                           map (\<lambda>i. bxs ! i) keep,
                                           map (\<lambda>i. scs ! i) keep,
                                           map (\<lambda>i. snd (filter_inds ! i)) keep,
                                           map (\<lambda>i. fst (filter_inds ! i)) keep))))))))"

section \<open>RPN losses\<close>

text \<open>
  What the name \<^verbatim>\<open>localization_loss\<close> can hold: a number, or the loss module
  \<^verbatim>\<open>torch.nn.SmoothL1Loss(reduction="sum")\<close> itself, constructed and not applied to any
  tensor.
\<close>

datatype loss = LossValue real | SmoothL1LossModule

text \<open>
  \<^verbatim>\<open>F.binary_cross_entropy_with_logits(x, z, reduction="sum")\<close>: the sum over the elements
  of \<open>max x 0 - x * z + ln (1 + exp (- \<bar>x\<bar>))\<close>.
\<close>

definition binary_cross_entropy_with_logits :: "real list \<Rightarrow> real list \<Rightarrow> real" where
  "binary_cross_entropy_with_logits xs zs =
     sum_list (map (\<lambda>(x, z). max x 0 - x * z + ln (1 + exp (- \<bar>x\<bar>))) (zip xs zs))"

text \<open>Indexing a vector by a boolean mask of the same length; another length raises.\<close>

definition mask_select :: "bool list \<Rightarrow> 'a list \<Rightarrow> error + 'a list" where
  "mask_select bs xs =
     (if length bs \<noteq> length xs then Inl IndexError
      else Inr (map snd (filter fst (zip bs xs))))"

text \<open>
  \<^verbatim>\<open>rpn_losses\<close>, returning \<open>(objectness_loss, localization_loss)\<close>. The two tensors of
  anchor deltas and \<open>smooth_l1_beta\<close> are arguments that the body never reads.
\<close>

definition rpn_losses ::
  "int list \<Rightarrow> real list list \<Rightarrow> real list \<Rightarrow> real list list \<Rightarrow> real \<Rightarrow> error + real \<times> loss" where
  "rpn_losses gt_objectness_logits gt_anchor_deltas pred_objectness_logits pred_anchor_deltas
       smooth_l1_beta =
     (let localization_loss = SmoothL1LossModule;
          valid_masks = map (\<lambda>g. 0 \<le> g) gt_objectness_logits
      in case mask_select valid_masks pred_objectness_logits of
           Inl e \<Rightarrow> Inl e
         | Inr pred_valid \<Rightarrow>
             (case mask_select valid_masks gt_objectness_logits of
                Inl e \<Rightarrow> Inl e
              | Inr gt_valid \<Rightarrow>
                  Inr (binary_cross_entropy_with_logits pred_valid (map real_of_int gt_valid),
                       localization_loss)))"

text \<open>
  The product \<^verbatim>\<open>loss * normalizer\<close> of \<^verbatim>\<open>RPNOutputs.losses\<close>: a number is scaled; a
  module has no multiplication with a float, and Python raises a \<^verbatim>\<open>TypeError\<close>.
\<close>

fun loss_times :: "loss \<Rightarrow> real \<Rightarrow> error + real" where
  "loss_times (LossValue v) c = Inr (v * c)"
| "loss_times SmoothL1LossModule c = Inl TypeError"

text \<open>
  The end of \<^verbatim>\<open>RPNOutputs.losses\<close>, from the call of \<^verbatim>\<open>rpn_losses\<close> on the flattened
  labels, targets and predictions: the normalizer \<open>1 / (batch_size_per_image *
  num_images)\<close> and the two products, returned as \<open>(loss_rpn_cls, loss_rpn_loc)\<close>.
\<close>

definition rpn_outputs_losses ::
  "int \<Rightarrow> int \<Rightarrow> int list \<Rightarrow> real list list \<Rightarrow> real list \<Rightarrow> real list list \<Rightarrow> real
     \<Rightarrow> error + real \<times> real" where
  "rpn_outputs_losses batch_size_per_image num_images gt_objectness_logits gt_anchor_deltas
       pred_objectness_logits pred_anchor_deltas smooth_l1_beta =
     (case rpn_losses gt_objectness_logits gt_anchor_deltas pred_objectness_logits
             pred_anchor_deltas smooth_l1_beta of
        Inl e \<Rightarrow> Inl e
      | Inr (objectness_loss, localization_loss) \<Rightarrow>
          (if batch_size_per_image * num_images = 0 then Inl ZeroDivisionError
           else
             (let normalizer = 1 / real_of_int (batch_size_per_image * num_images);
                  loss_cls = objectness_loss * normalizer
              in case loss_times localization_loss normalizer of
                   Inl e \<Rightarrow> Inl e
                 | Inr loss_loc \<Rightarrow> Inr (loss_cls, loss_loc))))"

text \<open>
  The localization loss as the specification words it, for comparison with the code:
  the smooth-L1 loss with transition point \<open>beta\<close> between predicted and ground-truth
  deltas, summed over the anchors whose label is 1, and divided by
  \<open>batch_size_per_image * num_images\<close>.
\<close>

definition smooth_l1_spec :: "real \<Rightarrow> real \<Rightarrow> real" where
  "smooth_l1_spec beta x = (if \<bar>x\<bar> < beta then 0.5 * x ^ 2 / beta else \<bar>x\<bar> - 0.5 * beta)"

definition localization_loss_spec ::
  "int \<Rightarrow> int \<Rightarrow> int list \<Rightarrow> real list list \<Rightarrow> real list list \<Rightarrow> real \<Rightarrow> real" where
  "localization_loss_spec batch_size_per_image num_images gt_objectness_logits gt_anchor_deltas
       pred_anchor_deltas smooth_l1_beta =
     sum_list (map (\<lambda>(g, p, t). if g = 1
                      then sum_list (map (\<lambda>(a, b). smooth_l1_spec smooth_l1_beta (a - b)) (zip p t))
                      else 0)
                (zip gt_objectness_logits (zip pred_anchor_deltas gt_anchor_deltas)))
       / real_of_int (batch_size_per_image * num_images)"


section \<open>Range arithmetic: signs and order\<close>










section \<open>Box2BoxTransform: predicted boxes are valid or NaN\<close>



lemma map_rows_cong_Inr:
  "(\<And>x. x \<in> set xs \<Longrightarrow> f x = Inr (g x)) \<Longrightarrow> map_rows f xs = Inr (map g xs)"
  by (induction xs) simp_all





section \<open>Box2BoxTransform: the input check of get_deltas\<close>

text \<open>
  Claim C5. \<^verbatim>\<open>get_deltas\<close> asserts that the source widths are positive and nothing
  about the source heights: a source box of width one and height zero is accepted, and
  the division by the zero height shows up as infinite deltas \<open>dy\<close> and \<open>dh\<close>.
\<close>

theorem get_deltas_zero_height_accepted:
  "get_deltas (Box2BoxTransform (1, 1, 1, 1) None) [(0, 0, 1, 0)] [(0, 0, 1, 1)]
     = Inr [[Fin 0, PInf, Fin 0, PInf]]"
  by (simp add: get_deltas_def get_deltas_in_def broadcast2_def Box2BoxTransform_def Let_def
      fl_inf_def fl_sub_def range_sum_def range_round_def)

section \<open>Box2BoxTransform: the round trip\<close>











section \<open>Matcher: labels and the rescue pass\<close>

lemma Matcher_fields:
  assumes "Matcher ths labs allow = Inr m"
  shows "thresholds m = MInf # map Fin ths @ [PInf]" "labels m = labs"
    "allow_low_quality_matches m = allow" "length labs = Suc (length ths)" "ths \<noteq> []"
  using assms by (auto simp: Matcher_def Let_def split: if_splits)

lemma band_fold_cases:
  "foldl (\<lambda>lab (l, low, high). if fl_le low (Fin v) \<and> fl_lt (Fin v) high then l else lab) init bands
     \<in> insert init (set (map fst bands))"
proof (induction bands arbitrary: init)
  case Nil
  then show ?case by simp
next
  case (Cons b bands)
  obtain l low high where b: "b = (l, low, high)" by (cases b) auto
  show ?case
  proof (cases "fl_le low (Fin v) \<and> fl_lt (Fin v) high")
    case True
    with Cons.IH[of l] b show ?thesis by auto
  next
    case False
    with Cons.IH[of init] b show ?thesis by auto
  qed
qed

lemma band_fold_hit:
  "\<exists>(l, low, high)\<in>set bands. fl_le low (Fin v) \<and> fl_lt (Fin v) high \<Longrightarrow>
   foldl (\<lambda>lab (l, low, high). if fl_le low (Fin v) \<and> fl_lt (Fin v) high then l else lab) init bands
     \<in> set (map fst bands)"
proof (induction bands arbitrary: init)
  case Nil
  then show ?case by simp
next
  case (Cons b bands)
  obtain l low high where b: "b = (l, low, high)" by (cases b) auto
  show ?case
  proof (cases "\<exists>(l, low, high)\<in>set bands. fl_le low (Fin v) \<and> fl_lt (Fin v) high")
    case True
    from Cons.IH[OF True] show ?thesis by simp
  next
    case False
    with Cons.prems b have hit: "fl_le low (Fin v) \<and> fl_lt (Fin v) high" by auto
    from band_fold_cases[of v l bands] hit b show ?thesis by auto
  qed
qed

lemma fl_total: "t \<noteq> NaN \<Longrightarrow> fl_le t (Fin v) \<or> fl_lt (Fin v) t"
  by (cases t) auto

lemma band_exists:
  "ts \<noteq> [] \<Longrightarrow> fl_le (hd ts) (Fin v) \<Longrightarrow> fl_lt (Fin v) (last ts) \<Longrightarrow> NaN \<notin> set ts \<Longrightarrow>
   \<exists>(low, high)\<in>set (zip (butlast ts) (tl ts)). fl_le low (Fin v) \<and> fl_lt (Fin v) high"
proof (induction ts rule: induct_list012)
  case 1
  then show ?case by simp
next
  case (2 a)
  then show ?case by (cases a) auto
next
  case (3 a b rest)
  show ?case
  proof (cases "fl_lt (Fin v) b")
    case True
    with 3 show ?thesis by simp
  next
    case False
    with "3.prems" fl_total[of b v] have "fl_le b (Fin v)" by auto
    with 3 have "\<exists>(low, high)\<in>set (zip (butlast (b # rest)) (tl (b # rest))).
        fl_le low (Fin v) \<and> fl_lt (Fin v) high" by simp
    then show ?thesis by auto
  qed
qed

lemma band_label_in_labels:
  assumes "Matcher ths labs allow = Inr m"
  shows "band_label m v \<in> set labs"
proof -
  let ?ts = "MInf # map Fin ths @ [PInf]"
  let ?pairs = "zip (butlast ?ts) (tl ?ts)"
  note F = Matcher_fields[OF assms]
  have "NaN \<notin> set ?ts" by auto
  then have "\<exists>(low, high)\<in>set ?pairs. fl_le low (Fin v) \<and> fl_lt (Fin v) high"
    by (intro band_exists) simp_all
  then obtain low high where p: "(low, high) \<in> set ?pairs"
    "fl_le low (Fin v)" "fl_lt (Fin v) high" by auto
  have len: "length ?pairs = length labs" using F(4) by simp
  from p(1) obtain k where k: "k < length ?pairs" "?pairs ! k = (low, high)"
    by (auto simp: in_set_conv_nth)
  with len have "(labs ! k, low, high) \<in> set (zip labs ?pairs)"
    by (auto simp: in_set_conv_nth intro!: exI[of _ k])
  with p have "\<exists>(l, low, high)\<in>set (zip labs ?pairs). fl_le low (Fin v) \<and> fl_lt (Fin v) high"
    by auto
  from band_fold_hit[OF this, of 1] have "band_label m v \<in> set (map fst (zip labs ?pairs))"
    unfolding band_label_def F(1) F(2) .
  also have "map fst (zip labs ?pairs) = labs" using len by (simp add: map_fst_zip)
  finally show ?thesis .
qed

lemma foldl_update_length: "length (foldl (\<lambda>ls j. ls[j := c]) ls js) = length ls"
  by (induction js arbitrary: ls) simp_all

lemma foldl_update_cases:
  "k < length ls \<Longrightarrow> foldl (\<lambda>ls j. ls[j := c]) ls js ! k = (if k \<in> set js then c else ls ! k)"
proof (induction js arbitrary: ls)
  case Nil
  then show ?case by simp
next
  case (Cons j js)
  then have "foldl (\<lambda>ls j. ls[j := c]) (ls[j := c]) js ! k
      = (if k \<in> set js then c else ls[j := c] ! k)" by simp
  with Cons.prems show ?case by (auto simp: nth_list_update)
qed

lemma max_list_eq_Max: "xs \<noteq> [] \<Longrightarrow> max_list xs = Max (set xs)"
proof (cases xs)
  case Nil
  then show "xs \<noteq> [] \<Longrightarrow> ?thesis" by simp
next
  case (Cons x ys)
  have "foldl max x ys = fold max ys x"
    by (simp add: foldl_conv_fold max.commute)
  moreover have "Max (set (x # ys)) = fold max ys x" by (rule Max.set_eq_fold)
  ultimately show ?thesis using Cons by simp
qed

lemma max_list_mem: "xs \<noteq> [] \<Longrightarrow> max_list xs \<in> set xs"
  using Max_in[of "set xs"] by (simp add: max_list_eq_Max)

text \<open>The column indices at which the rescue pass writes.\<close>

lemma pred_inds_mem:
  assumes "i < length rs" "j < length (rs ! i)" "rs ! i ! j = max_list (rs ! i)"
  shows "j \<in> set (concat (map (\<lambda>mask. filter (\<lambda>j. mask ! j) [0..<length mask])
            (map (\<lambda>(r, h). map (\<lambda>v. v = h) r) (zip rs (map max_list rs)))))"
proof -
  let ?masks = "map (\<lambda>(r, h). map (\<lambda>v. v = h) r) (zip rs (map max_list rs))"
  have m: "?masks ! i = map (\<lambda>v. v = max_list (rs ! i)) (rs ! i)" using assms(1) by simp
  have "j \<in> set (filter (\<lambda>j. (?masks ! i) ! j) [0..<length (?masks ! i)])"
    unfolding m using assms(2,3) by simp
  moreover have "?masks ! i \<in> set ?masks" using assms(1) by (intro nth_mem) simp
  ultimately show ?thesis unfolding set_concat set_map by blast
qed

lemma set_low_quality_length:
  "length (set_low_quality_matches ls q) = length ls"
  by (simp add: set_low_quality_matches_def Let_def foldl_update_length)

lemma set_low_quality_cases:
  "l \<in> set (set_low_quality_matches ls q) \<Longrightarrow> l \<in> set ls \<or> l = 1"
  unfolding set_low_quality_matches_def Let_def
  by (auto simp: in_set_conv_nth foldl_update_length foldl_update_cases split: if_splits)

lemma set_low_quality_hit:
  assumes "i < length (rows q)" "j < length (rows q ! i)" "j < length ls"
    "rows q ! i ! j = max_list (rows q ! i)"
  shows "set_low_quality_matches ls q ! j = 1"
  using pred_inds_mem[OF assms(1,2,4)] assms(3)
  by (simp add: set_low_quality_matches_def Let_def foldl_update_cases)

lemma argmax_first_less: "xs \<noteq> [] \<Longrightarrow> argmax_first xs < length xs"
proof -
  have *: "x \<in> set ys \<Longrightarrow> length (takeWhile (\<lambda>v. v \<noteq> x) ys) < length ys" for x :: real and ys
    by (induction ys) auto
  show "xs \<noteq> [] \<Longrightarrow> ?thesis"
    unfolding argmax_first_def by (rule *) (rule max_list_mem)
qed

text \<open>
  Claim C3, as the code has it. For a matcher that \<^verbatim>\<open>Matcher.__init__\<close> accepts and a
  non-negative \<open>M \<times> N\<close> quality matrix with \<open>M > 0\<close>, the call returns one matched row
  index and one label for each of the \<open>N\<close> predictions. Each label is drawn from the
  configured label list, or is the label 1 that the rescue pass writes when
  \<^verbatim>\<open>allow_low_quality_matches\<close> is set. With \<^verbatim>\<open>allow_low_quality_matches\<close> set and at least
  one prediction, every ground-truth row has a prediction whose quality equals the
  row's maximum, and every such prediction is labelled 1.
\<close>

theorem matcher_labels:
  assumes mk: "Matcher ths labs allow = Inr m"
    and wf: "wf_matrix q" and M: "rows q \<noteq> []"
    and nn: "\<forall>r\<in>set (rows q). \<forall>v\<in>set r. 0 \<le> v"
  shows "\<exists>matches mlabels. matcher_call m q = Inr (matches, mlabels)
     \<and> length matches = ncols q \<and> length mlabels = ncols q
     \<and> (\<forall>i\<in>set matches. i < length (rows q))
     \<and> (\<forall>l\<in>set mlabels. l \<in> set labs \<or> (allow \<and> l = 1))
     \<and> (allow \<and> 0 < ncols q \<longrightarrow>
          (\<forall>r\<in>set (rows q). (\<exists>j<ncols q. r ! j = Max (set r))
             \<and> (\<forall>j<ncols q. r ! j = Max (set r) \<longrightarrow> mlabels ! j = 1)))"
proof (cases "ncols q = 0")
  case True
  from Matcher_fields[OF mk] obtain l0 ls where "labels m = l0 # ls"
    by (cases labs) auto
  with True show ?thesis by (simp add: matcher_call_def)
next
  case False
  note F = Matcher_fields[OF mk]
  let ?mv = "max_dim0 q"
  let ?base = "map (band_label m) (map fst ?mv)"
  let ?out = "if allow then set_low_quality_matches ?base q else ?base"
  from nn have nn': "list_all (list_all (\<lambda>v. 0 \<le> v)) (rows q)" by (simp add: list_all_iff)
  from False M nn' F(3) have call: "matcher_call m q = Inr (map snd ?mv, ?out)"
    by (simp add: matcher_call_def Let_def)
  have len_base: "length ?base = ncols q" by (simp add: max_dim0_def)
  then have len_out: "length ?out = ncols q" by (simp add: set_low_quality_length)
  have base: "l \<in> set labs" if "l \<in> set ?base" for l
    using that band_label_in_labels[OF mk] by auto
  have labs: "\<forall>l\<in>set ?out. l \<in> set labs \<or> (allow \<and> l = 1)"
  proof
    fix l assume l: "l \<in> set ?out"
    show "l \<in> set labs \<or> (allow \<and> l = 1)"
    proof (cases allow)
      case True
      with l have "l \<in> set (set_low_quality_matches ?base q)" by (simp only: if_True)
      from set_low_quality_cases[OF this] base True show ?thesis by blast
    next
      case False
      with l have "l \<in> set ?base" by (simp only: if_False)
      with base show ?thesis by blast
    qed
  qed
  have matches: "\<forall>i\<in>set (map snd ?mv). i < length (rows q)"
  proof -
    have "argmax_first (column q j) < length (rows q)" for j
      using argmax_first_less[of "column q j"] M by (simp add: column_def)
    then show ?thesis by (auto simp: max_dim0_def)
  qed
  have rescue: "(\<exists>j<ncols q. r ! j = Max (set r))
      \<and> (\<forall>j<ncols q. r ! j = Max (set r) \<longrightarrow> ?out ! j = 1)"
    if al: "allow" and r: "r \<in> set (rows q)" for r
  proof -
    from r wf have lr: "length r = ncols q" by (simp add: wf_matrix_def list_all_iff)
    with False have ne: "r \<noteq> []" by auto
    from r obtain i where i: "i < length (rows q)" "rows q ! i = r"
      by (auto simp: in_set_conv_nth)
    from max_list_mem[OF ne] lr obtain j where "j < ncols q" "r ! j = max_list r"
      by (auto simp: in_set_conv_nth)
    then have ex: "\<exists>j<ncols q. r ! j = Max (set r)"
      using max_list_eq_Max[OF ne] by auto
    have "?out ! j = 1" if "j < ncols q" "r ! j = Max (set r)" for j
      using set_low_quality_hit[of i q j ?base] i lr that al len_base max_list_eq_Max[OF ne]
      by simp
    with ex show ?thesis by blast
  qed
  show ?thesis
    unfolding call using len_out labs matches rescue by (simp add: max_dim0_def)
qed

theorem matcher_labels_witness:
  "matcher_call \<lparr>thresholds = [MInf, Fin 0.3, Fin 0.5, PInf], labels = [0, - 1, 1],
        allow_low_quality_matches = True\<rparr>
     \<lparr>ncols = 3, rows = [[0.1, 0.4, 0.9], [0.2, 0.2, 0.95]]\<rparr> = Inr ([1, 0, 1], [0, - 1, 1])
   \<and> (\<exists>matches mlabels. matcher_call \<lparr>thresholds = [MInf, Fin 0.3, Fin 0.5, PInf],
        labels = [0, - 1, 1], allow_low_quality_matches = True\<rparr>
        \<lparr>ncols = 3, rows = [[0.1, 0.4, 0.9], [0.2, 0.2, 0.95]]\<rparr> = Inr (matches, mlabels)
      \<and> (\<forall>l\<in>set mlabels. l \<in> set [0, - 1, 1]) \<and> mlabels ! 2 = 1)"
proof -
  let ?m = "\<lparr>thresholds = [MInf, Fin 0.3, Fin 0.5, PInf], labels = [0, - 1, 1],
        allow_low_quality_matches = True\<rparr>"
  let ?q = "\<lparr>ncols = 3, rows = [[0.1, 0.4, 0.9], [0.2, 0.2, 0.95 :: real]]\<rparr>"
  have u: "[0..<3] = [0, 1, 2]" by (simp add: upt_rec)
  have mk: "Matcher [0.3, 0.5] [0, - 1, 1] True = Inr ?m" by (simp add: Matcher_def)
  have wf: "wf_matrix ?q" by (simp add: wf_matrix_def)
  have M: "rows ?q \<noteq> []" by simp
  have nn: "\<forall>r\<in>set (rows ?q). \<forall>v\<in>set r. 0 \<le> v" by simp
  have c: "matcher_call ?m ?q = Inr ([1, 0, 1], [0, - 1, 1])"
    by (simp add: matcher_call_def max_dim0_def column_def argmax_first_def band_label_def
        set_low_quality_matches_def Let_def u)
  from matcher_labels[OF mk wf M nn] c show ?thesis by simp
qed

text \<open>
  Claim C3 as stated fails at two places. A matcher with labels \<open>[0, -1]\<close> and the rescue
  pass switched on labels a prediction 1, which is not in its label list; and a matrix
  with one ground-truth row and no prediction column returns no label at all, so the row
  has no prediction labelled 1.
\<close>

theorem matcher_labels_counterexample:
  "Matcher [0.5] [0, - 1] True
     = Inr \<lparr>thresholds = [MInf, Fin 0.5, PInf], labels = [0, - 1],
            allow_low_quality_matches = True\<rparr>
   \<and> matcher_call \<lparr>thresholds = [MInf, Fin 0.5, PInf], labels = [0, - 1],
        allow_low_quality_matches = True\<rparr> \<lparr>ncols = 1, rows = [[0.2]]\<rparr> = Inr ([0], [1])
   \<and> (1 :: int) \<notin> set [0, - 1]
   \<and> matcher_call \<lparr>thresholds = [MInf, Fin 0.5, PInf], labels = [0, - 1],
        allow_low_quality_matches = True\<rparr> \<lparr>ncols = 0, rows = [[]]\<rparr> = Inr ([], [])"
  by (simp add: Matcher_def matcher_call_def max_dim0_def column_def argmax_first_def
      band_label_def set_low_quality_matches_def Let_def)

text \<open>
  Claim C4. With no ground-truth row and any number \<open>n\<close> of predictions, a matcher that
  \<^verbatim>\<open>Matcher.__init__\<close> accepts does not raise: it returns the match index 0 and the label
  \<^verbatim>\<open>labels[0]\<close> for every prediction.
\<close>

theorem matcher_no_ground_truth:
  assumes "Matcher ths labs allow = Inr m"
  shows "matcher_call m \<lparr>ncols = n, rows = []\<rparr> = Inr (replicate n 0, replicate n (labs ! 0))"
proof -
  from Matcher_fields[OF assms] obtain l0 ls where "labels m = l0 # ls" "labs = l0 # ls"
    by (cases labs) auto
  then show ?thesis by (simp add: matcher_call_def)
qed

theorem matcher_no_ground_truth_witness:
  "Matcher [0.3, 0.5] [0, - 1, 1] True
     = Inr \<lparr>thresholds = [MInf, Fin 0.3, Fin 0.5, PInf], labels = [0, - 1, 1],
            allow_low_quality_matches = True\<rparr>
   \<and> matcher_call \<lparr>thresholds = [MInf, Fin 0.3, Fin 0.5, PInf], labels = [0, - 1, 1],
        allow_low_quality_matches = True\<rparr> \<lparr>ncols = Suc (Suc 0), rows = []\<rparr>
       = Inr ([0, 0], [0, 0])"
proof -
  have mk: "Matcher [0.3, 0.5] [0, - 1, 1] True
     = Inr \<lparr>thresholds = [MInf, Fin 0.3, Fin 0.5, PInf], labels = [0, - 1, 1],
            allow_low_quality_matches = True\<rparr>" by (simp add: Matcher_def)
  from matcher_no_ground_truth[OF mk, of "Suc (Suc 0)"] mk show ?thesis by simp
qed

section \<open>Intersection over union: symmetry and bounds\<close>
















section \<open>Sampling of labels: the rounded product\<close>

lemma rne_of_int: "rne (of_int k) = k"
  by (simp add: rne_def)

lemma rne_le:
  assumes "x \<le> of_int n"
  shows "rne x \<le> n"
proof -
  have "rne x \<le> \<lceil>x\<rceil>"
    unfolding rne_def Let_def by (auto simp: ceiling_altdef split: if_splits)
  also have "\<dots> \<le> n" using assms by (simp add: ceiling_le)
  finally show ?thesis .
qed

lemma rne_nonneg: "0 \<le> x \<Longrightarrow> 0 \<le> rne x"
  unfolding rne_def Let_def by auto

lemma binade_le:
  assumes "0 < y" "y < 2 ^ 53"
  shows "\<lfloor>log 2 y\<rfloor> \<le> 52"
proof -
  have "log 2 y < 53" using assms by (simp add: log_less_iff powr_realpow)
  then show ?thesis by (simp add: floor_le_iff)
qed

text \<open>The scale of a positive real below \<open>2^53\<close> divides one: an integer stays one.\<close>

lemma scale_nonpos:
  assumes "0 < y" "y < 2 ^ 53"
  shows "max \<lfloor>log 2 \<bar>y\<bar>\<rfloor> (- 1022) - 52 \<le> 0"
  using binade_le[OF assms] assms(1) by simp

lemma div_powi_int:
  assumes "e \<le> 0"
  shows "real_of_int n / 2 powi e = of_int (n * 2 ^ nat (- e))"
  using assms by (simp add: power_int_def field_simps)

lemma round_double_bounds:
  assumes "0 \<le> y" "y \<le> of_int n" "real_of_int n < 2 ^ 53"
  shows "0 \<le> round_double y \<and> round_double y \<le> of_int n"
proof (cases "y = 0")
  case True
  with assms show ?thesis by (simp add: round_double_def)
next
  case False
  with assms have y: "0 < y" "y < 2 ^ 53" by simp_all
  define e where "e = max \<lfloor>log 2 \<bar>y\<bar>\<rfloor> (- 1022) - 52"
  have e: "e \<le> 0" unfolding e_def by (rule scale_nonpos[OF y])
  have p: "0 < (2::real) powi e" by simp
  have R: "round_double y = of_int (rne (y / 2 powi e)) * 2 powi e"
    using False by (simp add: round_double_def e_def Let_def)
  have "0 \<le> y / 2 powi e" using y(1) p by simp
  then have lo: "0 \<le> rne (y / 2 powi e)" by (rule rne_nonneg)
  have "y / 2 powi e \<le> real_of_int n / 2 powi e"
    using assms(2) p by (simp add: divide_right_mono)
  also have "\<dots> = of_int (n * 2 ^ nat (- e))" by (rule div_powi_int[OF e])
  finally have "rne (y / 2 powi e) \<le> n * 2 ^ nat (- e)" by (rule rne_le)
  then have "real_of_int (rne (y / 2 powi e)) \<le> of_int (n * 2 ^ nat (- e))" by linarith
  also have "\<dots> = real_of_int n / 2 powi e" by (rule div_powi_int[OF e, symmetric])
  finally have "real_of_int (rne (y / 2 powi e)) * 2 powi e \<le> of_int n"
    using p by (simp add: pos_le_divide_eq)
  moreover have "0 \<le> real_of_int (rne (y / 2 powi e)) * 2 powi e" using lo p by simp
  ultimately show ?thesis unfolding R by simp
qed

lemma round_double_of_int:
  assumes "0 \<le> n" "real_of_int n < 2 ^ 53"
  shows "round_double (of_int n) = of_int n"
proof (cases "n = 0")
  case True
  then show ?thesis by (simp add: round_double_def)
next
  case False
  with assms have y: "0 < real_of_int n" by simp
  define e where "e = max \<lfloor>log 2 \<bar>real_of_int n\<bar>\<rfloor> (- 1022) - 52"
  have e: "e \<le> 0" unfolding e_def by (rule scale_nonpos[OF y assms(2)])
  have p: "(2::real) powi e \<noteq> 0" by simp
  have "round_double (of_int n) = of_int (rne (real_of_int n / 2 powi e)) * 2 powi e"
    using False by (simp add: round_double_def e_def Let_def)
  also have "\<dots> = of_int (n * 2 ^ nat (- e)) * 2 powi e"
    by (simp only: div_powi_int[OF e] rne_of_int)
  also have "\<dots> = real_of_int n / 2 powi e * 2 powi e"
    by (simp only: div_powi_int[OF e])
  also have "\<dots> = of_int n" using p by simp
  finally show ?thesis .
qed

section \<open>Sampling of labels: what is returned\<close>

lemma nonzero_props:
  "distinct (nonzero P xs)" "set (nonzero P xs) = {i. i < length xs \<and> P (xs ! i)}"
  by (auto simp: nonzero_def)

lemma is_randperm_length: "is_randperm p n \<Longrightarrow> length p = n"
  unfolding is_randperm_def using distinct_card[of p] by simp

lemma pick_distinct:
  assumes "distinct xs" "distinct p" "set p \<subseteq> {0..<length xs}"
  shows "distinct (map (\<lambda>k. xs ! k) (take n p))"
proof -
  have "inj_on (\<lambda>k. xs ! k) (set (take n p))"
  proof (rule inj_onI)
    fix a b assume ab: "a \<in> set (take n p)" "b \<in> set (take n p)" "xs ! a = xs ! b"
    then have "a < length xs" "b < length xs" using assms(3) set_take_subset[of n p] by auto
    with ab(3) assms(1) show "a = b" by (simp add: nth_eq_iff_index_eq)
  qed
  moreover have "distinct (take n p)" using assms(2) by simp
  ultimately show ?thesis by (simp add: distinct_map)
qed

lemma pick_subset:
  assumes "set p \<subseteq> {0..<length xs}"
  shows "set (map (\<lambda>k. xs ! k) (take n p)) \<subseteq> set xs"
  using assms set_take_subset[of n p] by auto

lemma nonzero_length: "length (nonzero P xs) = length (filter P xs)"
proof -
  have "filter P xs = filter P (map (\<lambda>i. xs ! i) [0..<length xs])" by (simp add: map_nth)
  also have "\<dots> = map (\<lambda>i. xs ! i) (nonzero P xs)"
    by (simp add: filter_map nonzero_def comp_def)
  finally show ?thesis by simp
qed

text \<open>
  Claim C9, as the code has it. For every label vector, \<open>0 \<le> num_samples < 2^53\<close>,
  \<open>positive_fraction\<close> in \<open>[0, 1]\<close> and background label, and for every outcome of the two
  random permutations, \<^verbatim>\<open>subsample_labels\<close> returns two lists of indices into the label
  vector, each without repetition and with no index in common. Every index of
  \<open>pos_idx\<close> points at a label that is neither -1 nor the background label, every index
  of \<open>neg_idx\<close> points at a background label, at most \<open>num_samples\<close> indices are returned
  in all, and the number of positives is the minimum of the number of positive labels
  and the integer part of the product \<open>num_samples * positive_fraction\<close> rounded to the
  nearest double.
\<close>

theorem subsample_labels_sound:
  assumes ns: "0 \<le> num_samples" "num_samples < 2 ^ 53"
    and pf: "0 \<le> positive_fraction" "positive_fraction \<le> 1"
    and r1: "is_randperm (randperm1 (length (nonzero (\<lambda>l. l \<noteq> - 1 \<and> l \<noteq> bg_label) label_vec)))
               (length (nonzero (\<lambda>l. l \<noteq> - 1 \<and> l \<noteq> bg_label) label_vec))"
    and r2: "is_randperm (randperm2 (length (nonzero (\<lambda>l. l = bg_label) label_vec)))
               (length (nonzero (\<lambda>l. l = bg_label) label_vec))"
  shows "\<exists>pos_idx neg_idx.
       subsample_labels randperm1 randperm2 label_vec num_samples positive_fraction bg_label
         = Inr (pos_idx, neg_idx)
     \<and> set pos_idx \<inter> set neg_idx = {} \<and> distinct pos_idx \<and> distinct neg_idx
     \<and> (\<forall>i\<in>set pos_idx. i < length label_vec \<and> label_vec ! i \<noteq> - 1 \<and> label_vec ! i \<noteq> bg_label)
     \<and> (\<forall>i\<in>set neg_idx. i < length label_vec \<and> label_vec ! i = bg_label)
     \<and> int (length pos_idx)
          = min (int (length (filter (\<lambda>l. l \<noteq> - 1 \<and> l \<noteq> bg_label) label_vec)))
                \<lfloor>round_double (of_int num_samples * positive_fraction)\<rfloor>
     \<and> int (length pos_idx) + int (length neg_idx) \<le> num_samples"
proof -
  let ?positive = "nonzero (\<lambda>l. l \<noteq> - 1 \<and> l \<noteq> bg_label) label_vec"
  let ?negative = "nonzero (\<lambda>l. l = bg_label) label_vec"
  let ?p1 = "randperm1 (length ?positive)" and ?p2 = "randperm2 (length ?negative)"
  let ?y = "real_of_int num_samples * positive_fraction"
  define num_pos where "num_pos = min (int (length ?positive)) \<lfloor>round_double ?y\<rfloor>"
  define num_neg where "num_neg = min (int (length ?negative)) (num_samples - num_pos)"
  define pos_idx where "pos_idx = map (\<lambda>k. ?positive ! k) (take (nat num_pos) ?p1)"
  define neg_idx where "neg_idx = map (\<lambda>k. ?negative ! k) (take (nat num_neg) ?p2)"
  from ns have nr: "0 \<le> real_of_int num_samples" "real_of_int num_samples < 2 ^ 53" by simp_all
  have small: "(2::real) ^ 53 < 2 ^ 1024 - 2 ^ 970" by simp
  have F: "py_float num_samples = Inr (real_of_int num_samples)"
    using nr small round_double_of_int[OF ns(1) nr(2)] by (simp add: py_float_def)
  from nr pf have y: "0 \<le> ?y" "?y \<le> of_int num_samples"
    by (simp_all add: mult_left_le)
  from round_double_bounds[OF y nr(2)]
  have rd: "0 \<le> round_double ?y" "round_double ?y \<le> of_int num_samples" by simp_all
  have M: "py_mul (real_of_int num_samples) positive_fraction = Fin (round_double ?y)"
    using y nr small by (simp add: py_mul_def)
  have I: "py_int (Fin (round_double ?y)) = Inr \<lfloor>round_double ?y\<rfloor>" using rd(1) by simp
  have fl_ge0: "0 \<le> \<lfloor>round_double ?y\<rfloor>" using rd(1) by simp
  have fl_le_ns: "\<lfloor>round_double ?y\<rfloor> \<le> num_samples" using rd(2) by (simp add: floor_le_iff)
  have np0: "0 \<le> num_pos" "num_pos \<le> num_samples" "num_pos \<le> int (length ?positive)"
    using fl_ge0 fl_le_ns by (simp_all add: num_pos_def)
  then have nn0: "0 \<le> num_neg" "num_neg \<le> num_samples - num_pos" "num_neg \<le> int (length ?negative)"
    by (simp_all add: num_neg_def)
  have res: "subsample_labels randperm1 randperm2 label_vec num_samples positive_fraction bg_label
               = Inr (pos_idx, neg_idx)"
    using np0 nn0
    by (simp add: subsample_labels_def F M I Let_def py_slice_to_def num_pos_def num_neg_def
        pos_idx_def neg_idx_def del: py_int.simps)
  note pos = pos_idx_def and neg = neg_idx_def
  from r1 have s1: "distinct ?p1" "set ?p1 \<subseteq> {0..<length ?positive}" "length ?p1 = length ?positive"
    using is_randperm_length[OF r1] by (simp_all add: is_randperm_def)
  from r2 have s2: "distinct ?p2" "set ?p2 \<subseteq> {0..<length ?negative}" "length ?p2 = length ?negative"
    using is_randperm_length[OF r2] by (simp_all add: is_randperm_def)
  have sub1: "set pos_idx \<subseteq> set ?positive" unfolding pos by (rule pick_subset[OF s1(2)])
  have sub2: "set neg_idx \<subseteq> set ?negative" unfolding neg by (rule pick_subset[OF s2(2)])
  have d1: "distinct pos_idx" unfolding pos by (rule pick_distinct[OF nonzero_props(1) s1(1,2)])
  have d2: "distinct neg_idx" unfolding neg by (rule pick_distinct[OF nonzero_props(1) s2(1,2)])
  have P: "\<forall>i\<in>set pos_idx. i < length label_vec \<and> label_vec ! i \<noteq> - 1 \<and> label_vec ! i \<noteq> bg_label"
    using sub1 by (auto simp: nonzero_props(2))
  have N: "\<forall>i\<in>set neg_idx. i < length label_vec \<and> label_vec ! i = bg_label"
    using sub2 by (auto simp: nonzero_props(2))
  from P N have disj: "set pos_idx \<inter> set neg_idx = {}" by blast
  have lp: "int (length pos_idx) = num_pos" using np0 s1(3) by (simp add: pos)
  have ln: "int (length neg_idx) = num_neg" using nn0 s2(3) by (simp add: neg)
  have cnt: "length ?positive = length (filter (\<lambda>l. l \<noteq> - 1 \<and> l \<noteq> bg_label) label_vec)"
    by (rule nonzero_length)
  have "int (length pos_idx) = min (int (length (filter (\<lambda>l. l \<noteq> - 1 \<and> l \<noteq> bg_label) label_vec)))
                \<lfloor>round_double ?y\<rfloor>"
    unfolding lp num_pos_def cnt ..
  moreover have "int (length pos_idx) + int (length neg_idx) \<le> num_samples"
    unfolding lp ln using nn0 by simp
  ultimately show ?thesis using res disj d1 d2 P N by blast
qed

theorem subsample_labels_sound_witness:
  "subsample_labels (\<lambda>n. rev [0..<n]) (\<lambda>n. [0..<n]) [1, 0, - 1, 2, 0] 2 (1 / 2) 0
     = Inr ([3], [1])
   \<and> set [3 :: nat] \<inter> set [1] = {}
   \<and> int (length [3 :: nat])
       = min (int (length (filter (\<lambda>l. l \<noteq> - 1 \<and> l \<noteq> 0) [1, 0, - 1, 2, 0 :: int])))
           \<lfloor>round_double (of_int 2 * (1 / 2))\<rfloor>"
proof -
  have r1: "is_randperm (rev [0..<n]) n" and r2: "is_randperm [0..<n] n" for n
    by (simp_all add: is_randperm_def)
  have u5: "[0..<5] = [0, 1, 2, 3, 4]" by (simp add: upt_rec)
  have u2: "[0..<2] = [0, 1]" by (simp add: upt_rec)
  have nz: "nonzero (\<lambda>l. l \<noteq> - 1 \<and> l \<noteq> 0) [1, 0, - 1, 2, 0 :: int] = [0, 3]"
    "nonzero (\<lambda>l. l = 0) [1, 0, - 1, 2, 0 :: int] = [1, 4]"
    by (simp_all add: nonzero_def u5)
  have one: "round_double 1 = 1" using round_double_of_int[of 1] by simp
  have two: "round_double 2 = 2" using round_double_of_int[of 2] by simp
  have res: "subsample_labels (\<lambda>n. rev [0..<n]) (\<lambda>n. [0..<n]) [1, 0, - 1, 2, 0] 2 (1 / 2) 0
               = Inr ([3], [1])"
    by (simp add: subsample_labels_def nz Let_def py_float_def py_mul_def py_slice_to_def u2 one two)
  from subsample_labels_sound[of 2 "1 / 2" "\<lambda>n. rev [0..<n]" 0 "[1, 0, - 1, 2, 0]" "\<lambda>n. [0..<n]",
      OF _ _ _ _ r1 r2] res
  show ?thesis by (simp add: one)
qed

lemma round_double_tie:
  "round_double (10 * (6305039478318694 / 2 ^ 53)) = 7"
proof -
  let ?y = "10 * (6305039478318694 / 2 ^ 53) :: real"
  have b: "\<lfloor>log 2 \<bar>?y\<bar>\<rfloor> = 2"
    by (simp add: floor_log_eq_powr_iff)
  have p: "(2::real) powi (- 50) = 1 / 2 ^ 50" by (simp add: power_int_minus field_simps)
  have m: "?y / 2 powi (- 50) = 15762598695796735 / 2" unfolding p by simp
  have r: "rne (15762598695796735 / 2) = 7881299347898368" by (simp add: rne_def Let_def)
  have "round_double ?y = of_int (rne (?y / 2 powi (- 50))) * 2 powi (- 50)"
    unfolding round_double_def b by (simp add: Let_def)
  also have "\<dots> = 7" unfolding m r unfolding p by simp
  finally show ?thesis .
qed

text \<open>
  Claim C9 as stated fails on the count of positives, and on its "every
  \<open>num_samples\<close>". The double nearest to \<open>0.7\<close> is \<open>6305039478318694 / 2^53\<close>, just below
  \<open>0.7\<close>. Ten times it is just below 7, so its floor is 6; the product rounded to a
  double is 7, and with seven positive labels \<^verbatim>\<open>subsample_labels\<close> returns seven positives.
  And an integer \<open>num_samples\<close> of \<open>2^1024\<close> has no float, so the product raises.
\<close>

theorem subsample_labels_sound_counterexample:
  "subsample_labels (\<lambda>n. [0..<n]) (\<lambda>n. [0..<n]) [1, 1, 1, 1, 1, 1, 1] 10
       (6305039478318694 / 2 ^ 53) 0
     = Inr ([0, 1, 2, 3, 4, 5, 6], [])
   \<and> (0 :: real) \<le> 6305039478318694 / 2 ^ 53 \<and> (6305039478318694 / 2 ^ 53 :: real) \<le> 1
   \<and> min (int (length (filter (\<lambda>l. l \<noteq> - 1 \<and> l \<noteq> 0) [1, 1, 1, 1, 1, 1, 1 :: int])))
         \<lfloor>(6305039478318694 / 2 ^ 53 :: real) * of_int 10\<rfloor> = 6
   \<and> subsample_labels (\<lambda>n. [0..<n]) (\<lambda>n. [0..<n]) [1, 1, 1, 1, 1, 1, 1] (2 ^ 1024) (1 / 2) 0
     = Inl OverflowError"
proof -
  have u7: "[0..<7] = [0, 1, 2, 3, 4, 5, 6]" by (simp add: upt_rec)
  have nz: "nonzero (\<lambda>l. l \<noteq> - 1 \<and> l \<noteq> 0) [1, 1, 1, 1, 1, 1, 1 :: int] = [0, 1, 2, 3, 4, 5, 6]"
    "nonzero (\<lambda>l. l = 0) [1, 1, 1, 1, 1, 1, 1 :: int] = []"
    by (simp_all add: nonzero_def u7)
  have ten: "round_double 10 = 10" using round_double_of_int[of 10] by simp
  have m: "py_mul 10 (3152519739159347 / 4503599627370496) = Fin 7"
    using round_double_tie by (simp add: py_mul_def)
  have a: "subsample_labels (\<lambda>n. [0..<n]) (\<lambda>n. [0..<n]) [1, 1, 1, 1, 1, 1, 1] 10
       (6305039478318694 / 2 ^ 53) 0 = Inr ([0, 1, 2, 3, 4, 5, 6], [])"
    by (simp add: subsample_labels_def nz Let_def py_float_def ten m py_slice_to_def u7)
  have b: "\<lfloor>(6305039478318694 / 2 ^ 53 :: real) * of_int 10\<rfloor> = 6" by simp
  have c: "subsample_labels (\<lambda>n. [0..<n]) (\<lambda>n. [0..<n]) [1, 1, 1, 1, 1, 1, 1] (2 ^ 1024) (1 / 2) 0
     = Inl OverflowError"
    by (simp add: subsample_labels_def py_float_def Let_def)
  from a b c show ?thesis by simp
qed

section \<open>Final detections: the function raises\<close>

text \<open>On every input the function raises: no input reaches the filter.\<close>

lemma fast_rcnn_inference_single_image_raises:
  "\<exists>e. fast_rcnn_inference_single_image tv_batched_nms tv_nms boxes scores image_shape
         score_thresh nms_thresh topk_per_image = Inl e"
  by (cases "group4 (concat (rows boxes))")
    (simp_all add: fast_rcnn_inference_single_image_def Let_def)

text \<open>
  Claim C7. \<^verbatim>\<open>fast_rcnn_inference_single_image\<close> reaches neither its filter nor its
  suppression: \<^verbatim>\<open>boxes.reshape(-1, 4)\<close> is a tensor, and \<^verbatim>\<open>clip\<close> of a tensor called with
  the image shape, a tuple, raises a \<^verbatim>\<open>TypeError\<close>. With two rows of three class scores
  and a background score, one box per row, an image of height 25 and width 15 and the
  threshold \<open>0.5\<close>, the claim's detections are the pairs \<open>(0, 2)\<close>, \<open>(1, 1)\<close> and
  \<open>(1, 2)\<close> of row and class, which \<open>filter_inds_of\<close> gives; the function returns none.
\<close>

theorem fast_rcnn_inference_single_image_raises_type_error:
  "fast_rcnn_inference_single_image
       (\<lambda>boxes scores idxs iou_threshold. [0..<length boxes])
       (\<lambda>boxes scores iou_threshold. [0..<length boxes])
       \<lparr>ncols = 4, rows = [[0, 0, 10, 10], [5, 5, 20, 30]]\<rparr>
       \<lparr>ncols = 4, rows = [[0.3, 0.1, 0.9, 0.05], [0.2, 0.6, 0.7, 0.1]]\<rparr>
       (25, 15) 0.5 0.5 100
     = Inl TypeError
   \<and> filter_inds_of \<lparr>ncols = 4, rows = [[0.3, 0.1, 0.9, 0.05], [0.2, 0.6, 0.7, 0.1]]\<rparr> 0.5
     = [(0, 2), (1, 1), (1, 2)]"
proof -
  have u: "[0..<3] = [0, 1, 2]" "[0..<2] = [0, 1]" by (simp_all add: upt_rec)
  show ?thesis
    by (simp add: fast_rcnn_inference_single_image_def filter_inds_of_def drop_last_column_def
        Let_def u)
qed

section \<open>RPN losses: the localization loss\<close>

text \<open>
  Claim C2. \<^verbatim>\<open>rpn_losses\<close> returns, as its localization loss, the smooth-L1 module it
  has just constructed: the module is applied to no tensor, and the anchor deltas are
  not read. \<^verbatim>\<open>RPNOutputs.losses\<close> then multiplies the module by the normalizer, which
  raises. With one positive anchor whose first predicted delta is off by 2, transition
  point 1, two anchors per image and one image, the claimed loss is \<open>3 / 4\<close>.
\<close>

theorem rpn_localization_loss_not_computed:
  "rpn_losses [1, 0, - 1] [[0, 0, 0, 0], [0, 0, 0, 0], [0, 0, 0, 0]] [0, 0, 0]
      [[2, 0, 0, 0], [0, 0, 0, 0], [0, 0, 0, 0]] 1 = Inr (2 * ln 2, SmoothL1LossModule)
   \<and> rpn_outputs_losses 2 1 [1, 0, - 1] [[0, 0, 0, 0], [0, 0, 0, 0], [0, 0, 0, 0]] [0, 0, 0]
      [[2, 0, 0, 0], [0, 0, 0, 0], [0, 0, 0, 0]] 1 = Inl TypeError
   \<and> localization_loss_spec 2 1 [1, 0, - 1] [[0, 0, 0, 0], [0, 0, 0, 0], [0, 0, 0, 0]]
      [[2, 0, 0, 0], [0, 0, 0, 0], [0, 0, 0, 0]] 1 = 3 / 4"
  by (simp add: rpn_losses_def rpn_outputs_losses_def mask_select_def
      binary_cross_entropy_with_logits_def localization_loss_spec_def smooth_l1_spec_def Let_def)


end
